theory Spec2Isabelle
  imports Complex_Main
begin

section \<open>Strings of the JavaScript sources\<close>

text \<open>
  A JavaScript string is modelled as a \<open>string\<close> (a list of characters). Every
  string the sources compare or return as a model id, a depth, a format or a channel is
  plain ASCII. The few non-ASCII characters (the emoji of console lines and of the lead
  recommendations) are written as their UTF-8 bytes.
\<close>

definition nl :: string where
  "nl = [CHR 0x0A]"

text \<open>\<open>Array.prototype.join\<close>: the elements separated by \<open>sep\<close>.\<close>

fun join :: "string \<Rightarrow> string list \<Rightarrow> string" where
  "join sep [] = []"
| "join sep [x] = x"
| "join sep (x # y # ys) = x @ sep @ join sep (y # ys)"

text \<open>\<open>s.substring(0, n)\<close>.\<close>

definition substring0 :: "nat \<Rightarrow> string \<Rightarrow> string" where
  "substring0 n s = take n s"

section \<open>examples/research-agent.ts\<close>

subsection \<open>Data\<close>

text \<open>
  \<open>interface ResearchConfig\<close>. TypeScript narrows \<open>depth\<close> and \<open>outputFormat\<close> to
  three literals each, but the type is erased at run time and both \<open>switch\<close> statements
  on \<open>depth\<close> carry a \<open>default\<close> branch, so both fields are strings here.
\<close>

record ResearchConfig =
  topic :: string
  depth :: string
  includeCitations :: bool
  outputFormat :: string

text \<open>\<open>class ResearchAgent\<close>: its only field is \<open>private config\<close>.\<close>

record ResearchAgent =
  config :: ResearchConfig

text \<open>
  A method takes the receiver \<open>this\<close> and returns its result together with the
  receiver as the method leaves it.
\<close>

type_synonym 'a invocation = "ResearchAgent \<Rightarrow> 'a \<times> ResearchAgent"

text \<open>The argument \<open>research()\<close> passes to the SDK's \<open>query\<close>.\<close>

record QueryOptions =
  model :: string
  systemPrompt :: string
  allowedTools :: "string list"
  maxTurns :: int
  settingSources :: "string list"

record QueryRequest =
  prompt :: string
  options :: QueryOptions

text \<open>A message of the stream that \<open>query\<close> returns: its \<open>type\<close> and its \<open>content\<close>.\<close>

record Message =
  mtype :: string
  mcontent :: string

text \<open>
  What \<open>research()\<close> takes from outside the agent: the process environment
  (\<open>process.env\<close>), the time \<open>new Date().toISOString()\<close> reads, and the SDK, as the
  finite stream of messages it answers a request with.
\<close>

record World =
  env :: "string \<rightharpoonup> string"
  clock :: string
  sdk :: "QueryRequest \<Rightarrow> Message list"

text \<open>
  The runtime mode, as \<open>test-dev-mode.ts\<close> reads it: development when
  \<open>process.env.NODE_ENV === 'development'\<close>, production otherwise.
\<close>

datatype RuntimeMode = development | production

definition runtimeMode :: "World \<Rightarrow> RuntimeMode" where
  "runtimeMode w = (if env w ''NODE_ENV'' = Some ''development'' then development else production)"

text \<open>
  One run of \<open>research()\<close>: the report returned, the receiver afterwards, the request
  handed to \<open>query\<close>, and the lines written with \<open>console.log\<close>.
\<close>

record ResearchRun =
  report :: string
  agent :: ResearchAgent
  sent :: QueryRequest
  console :: "string list"

subsection \<open>Constructor and private methods\<close>

definition constructor :: "ResearchConfig \<Rightarrow> ResearchAgent" where
  "constructor cfg = \<lparr>config = cfg\<rparr>"

text \<open>
  \<open>getFormatInstructions\<close>: a lookup in the object literal \<open>formats\<close>. A key that the
  literal does not have reads \<open>undefined\<close>, which the surrounding template prints as the
  text \<open>undefined\<close>.
\<close>

definition formats :: "string \<rightharpoonup> string" where
  "formats = [
     ''summary'' \<mapsto> join nl [
       '''',
       ''Format as a concise summary:'',
       ''- Executive overview (2-3 sentences)'',
       ''- Key findings (bullet points)'',
       ''- Conclusion (1-2 sentences)''],
     ''detailed'' \<mapsto> join nl [
       '''',
       ''Format as a detailed report:'',
       ''- Executive Summary'',
       ''- Background & Context'',
       ''- Key Findings (with subsections)'',
       ''- Analysis & Implications'',
       ''- Recommendations'',
       ''- Appendix (if needed)''],
     ''executive'' \<mapsto> join nl [
       '''',
       ''Format for executive audience:'',
       ''- One-page overview'',
       ''- Top 3 insights'',
       ''- Business implications'',
       ''- Recommended actions'',
       ''- Risk factors'']]"

definition getFormatInstructions :: "string option invocation" where
  "getFormatInstructions this = (formats (outputFormat (config this)), this)"

text \<open>How a template literal prints a value that may be \<open>undefined\<close>.\<close>

definition interpolate :: "string option \<Rightarrow> string" where
  "interpolate v = (case v of None \<Rightarrow> ''undefined'' | Some s \<Rightarrow> s)"

definition buildSystemPrompt :: "string invocation" where
  "buildSystemPrompt this =
     (let citations = (if includeCitations (config this)
                       then ''ALWAYS cite sources with URLs''
                       else ''Summarize without citations'');
          format = outputFormat (config this);
          (instructions, this1) = getFormatInstructions this
      in (join nl [
            ''You are an expert research analyst specializing in comprehensive information gathering and synthesis.'',
            '''',
            ''Your research methodology:'',
            '''',
            ''1. **Information Gathering Phase**'',
            ''   - Start with broad searches to understand the landscape'',
            ''   - Identify authoritative sources and key subtopics'',
            ''   - Use progressive search refinement based on initial findings'',
            ''   - Cross-reference information from multiple sources'',
            '''',
            ''2. **Analysis Phase**'',
            ''   - Extract key facts, statistics, and insights'',
            ''   - Identify patterns, trends, and relationships'',
            ''   - Note conflicting information and assess credibility'',
            ''   - Score confidence levels for each finding'',
            '''',
            ''3. **Synthesis Phase**'',
            ''   - Organize information into logical categories'',
            ''   - Create a narrative that connects findings'',
            ''   - Highlight key insights and implications'',
            ''   - Generate actionable recommendations'',
            '''',
            ''Research Quality Standards:'',
            ''- '' @ citations,
            ''- Prioritize recent information (last 2 years when possible)'',
            ''- Focus on authoritative sources'',
            ''- Verify controversial or surprising claims'',
            ''- Acknowledge limitations and gaps in available information'',
            '''',
            ''Output Format: '' @ format,
            interpolate instructions],
          this1))"

definition depthInstructions :: "string \<rightharpoonup> string" where
  "depthInstructions = [
     ''quick'' \<mapsto> ''Provide a quick overview with 3-5 key points.'',
     ''standard'' \<mapsto>
       ''Conduct a standard research with 5-10 key findings and supporting details.'',
     ''comprehensive'' \<mapsto>
       ''Perform deep research with exhaustive coverage, multiple perspectives, and detailed analysis.'']"

definition buildResearchPrompt :: "string invocation" where
  "buildResearchPrompt this =
     (join nl [
        ''Research Topic: '' @ topic (config this),
        '''',
        interpolate (depthInstructions (depth (config this))),
        '''',
        ''Please follow the research methodology and quality standards defined in your instructions.''],
      this)"

text \<open>
  \<open>getModelByDepth\<close>: the \<open>switch\<close> on \<open>this.config.depth\<close>, whose \<open>default\<close> branch
  returns the Sonnet id.
\<close>

definition getModelByDepth :: "string invocation" where
  "getModelByDepth this =
     (if depth (config this) = ''quick'' then ''claude-haiku-4-5-20251001''
      else if depth (config this) = ''standard'' then ''claude-sonnet-4-5-20250929''
      else if depth (config this) = ''comprehensive'' then ''claude-opus-4-1-20250805''
      else ''claude-sonnet-4-5-20250929'',
      this)"

text \<open>\<open>getSearchIterations\<close>: the second \<open>switch\<close>, whose \<open>default\<close> branch returns 20.\<close>

definition getSearchIterations :: "int invocation" where
  "getSearchIterations this =
     (if depth (config this) = ''quick'' then 10
      else if depth (config this) = ''standard'' then 20
      else if depth (config this) = ''comprehensive'' then 40
      else 20,
      this)"

text \<open>
  \<open>formatResults\<close>; \<open>timestamp\<close> is what \<open>new Date().toISOString()\<close> returned, and
  \<open>divider\<close> is \<open>"=".repeat(60)\<close>.
\<close>

definition formatResults :: "string \<Rightarrow> string list \<Rightarrow> string invocation" where
  "formatResults timestamp results this =
     (let divider = replicate 60 (CHR ''='')
      in (join nl [
            '''',
            divider,
            ''RESEARCH REPORT'',
            ''Topic: '' @ topic (config this),
            ''Generated: '' @ timestamp,
            ''Depth: '' @ depth (config this),
            divider,
            '''',
            join (nl @ nl) results,
            '''',
            divider,
            ''END OF REPORT'',
            divider],
          this))"

subsection \<open>\<open>research()\<close>\<close>

text \<open>
  The body of the \<open>for await\<close> loop, over the messages of the stream in order: an
  assistant message is pushed onto \<open>results\<close> and its first 200 characters are logged.
\<close>

fun drain :: "Message list \<Rightarrow> string list \<Rightarrow> string list \<Rightarrow> string list \<times> string list" where
  "drain [] results out = (results, out)"
| "drain (message # rest) results out =
     (if mtype message = ''assistant''
      then drain rest (results @ [mcontent message])
             (out @ [nl @ [CHR 0xF0, CHR 0x9F, CHR 0x93, CHR 0x84] @ '' Finding: ''
                       @ substring0 200 (mcontent message) @ ''...''])
      else drain rest results out)"

definition research :: "World \<Rightarrow> ResearchAgent \<Rightarrow> ResearchRun" where
  "research w this =
     (let out = [
            [CHR 0xF0, CHR 0x9F, CHR 0x94, CHR 0x8D] @ '' Starting research on: ''
              @ topic (config this),
            [CHR 0xF0, CHR 0x9F, CHR 0x93, CHR 0x8A] @ '' Depth: '' @ depth (config this),
            [CHR 0xF0, CHR 0x9F, CHR 0x93, CHR 0x9D] @ '' Format: ''
              @ outputFormat (config this)];
          (searchIterations, this1) = getSearchIterations this;
          (systemPrompt', this2) = buildSystemPrompt this1;
          (prompt', this3) = buildResearchPrompt this2;
          (model', this4) = getModelByDepth this3;
          request = \<lparr>prompt = prompt',
                     options = \<lparr>model = model',
                                systemPrompt = systemPrompt',
                                allowedTools =
                                  [''WebSearch'', ''WebFetch'', ''Read'', ''Write'', ''Grep''],
                                maxTurns = searchIterations,
                                settingSources = [''project'']\<rparr>\<rparr>;
          (results, out') = drain (sdk w request) [] out;
          (report', this5) = formatResults (clock w) results this4
      in \<lparr>report = report', agent = this5, sent = request, console = out'\<rparr>)"

text \<open>
  The execution profile of a run: the depth and the output format the agent works with
  after the run, and the model and the turn budget of the request it handed to \<open>query\<close>.
\<close>

record ExecutionProfile =
  effectiveDepth :: string
  effectiveFormat :: string
  profileModel :: string
  profileMaxTurns :: int

definition resolvedProfile :: "World \<Rightarrow> ResearchAgent \<Rightarrow> ExecutionProfile" where
  "resolvedProfile w this =
     (let run = research w this
      in \<lparr>effectiveDepth = depth (config (agent run)),
          effectiveFormat = outputFormat (config (agent run)),
          profileModel = model (options (sent run)),
          profileMaxTurns = maxTurns (options (sent run))\<rparr>)"

section \<open>examples/typescript-fundamentals.ts: \<open>TypeSafeAgent\<close>\<close>

text \<open>
  \<open>interface AgentConfig\<close>. Its \<open>model\<close> is one of three literals and \<open>modelMap\<close>
  has exactly these three keys, so the field is an enumeration. The fields \<open>model\<close>,
  \<open>maxTurns\<close> and \<open>systemPrompt\<close> carry the prefix \<open>agent\<close> here to keep them apart
  from the fields of \<open>QueryOptions\<close>.
\<close>

datatype ModelTier = haiku | sonnet | opus

record AgentConfig =
  name :: string
  agentModel :: ModelTier
  tools :: "string list"
  agentMaxTurns :: int
  agentSystemPrompt :: string

record TypeSafeAgent =
  agentConfig :: AgentConfig

definition modelMap :: "ModelTier \<Rightarrow> string" where
  "modelMap k =
     (case k of
        haiku \<Rightarrow> ''claude-haiku-4-5-20251001''
      | sonnet \<Rightarrow> ''claude-sonnet-4-5-20250929''
      | opus \<Rightarrow> ''claude-opus-4-1-20250514'')"

definition resolveModel :: "TypeSafeAgent \<Rightarrow> string" where
  "resolveModel this = modelMap (agentModel (agentConfig this))"

text \<open>
  The tier of \<open>TypeSafeAgent\<close> that stands for a research depth: quick is Haiku,
  standard is Sonnet, comprehensive is Opus.
\<close>

definition tierOfDepth :: "string \<rightharpoonup> ModelTier" where
  "tierOfDepth = [''quick'' \<mapsto> haiku, ''standard'' \<mapsto> sonnet, ''comprehensive'' \<mapsto> opus]"

section \<open>The pre-sales agent\<close>

subsection \<open>The \<open>score_lead\<close> tool\<close>

text \<open>
  A JavaScript number is a double. It is taken as the real number it stands for, and the
  rounding of an arithmetic operation to a double is written out where the handler of
  the tool computes with fractions. The infinities are not represented: the comparisons
  of the handler treat them as any large finite number.
\<close>

record DecisionMaker =
  dm_name :: string
  dm_title :: string
  dm_email :: "string option"

text \<open>
  \<open>LeadSchema\<close>; an optional field is an \<open>option\<close>. The four fields that the
  input of the tool has under the same name carry the prefix \<open>lead\<close>.
\<close>

record Lead =
  company_name :: string
  lead_company_size :: real
  industry :: string
  lead_budget :: "real option"
  lead_timeline :: string
  pain_points :: "string list"
  decision_makers :: "DecisionMaker list"
  lead_engagement_level :: real

text \<open>The input object of the tool, as its schema declares it.\<close>

record ScoreLeadInput =
  company_size :: real
  budget :: "real option"
  timeline :: string
  engagement_level :: real
  pain_point_match :: real
  decision_maker_access :: bool

text \<open>
  What the schema accepts beyond the types: \<open>engagement_level\<close> and
  \<open>pain_point_match\<close> are declared \<open>z.number().min(0).max(10)\<close>.
\<close>

definition scoreLeadSchema :: "ScoreLeadInput \<Rightarrow> bool" where
  "scoreLeadSchema input \<longleftrightarrow>
     0 \<le> engagement_level input \<and> engagement_level input \<le> 10 \<and>
     0 \<le> pain_point_match input \<and> pain_point_match input \<le> 10"

text \<open>\<open>input.budget || 'unknown'\<close> is the number or the string.\<close>

record ScoreFactors =
  factor_company_size :: real
  factor_budget :: "real + string"
  factor_timeline :: string
  factor_engagement :: real
  factor_pain_point_match :: real
  factor_decision_maker_access :: bool

record ScoreLeadResult =
  score :: int
  recommendation :: string
  factors :: ScoreFactors

text \<open>
  \<open>Math.round\<close> rounds to the nearest integer, a half upwards; it is exact on the
  number it is given.
\<close>

definition Math_round :: "real \<Rightarrow> int" where
  "Math_round x = \<lfloor>x + 1 / 2\<rfloor>"

text \<open>
  What the handler needs of the rounding \<open>fl\<close> of double arithmetic: a larger exact
  result never rounds to a smaller number, and the integers from 0 to 100 are numbers.
  The rounding of IEEE 754 doubles is of this kind, and so is exact real arithmetic,
  \<open>fl = (\<lambda>x. x)\<close>.
\<close>

definition rounding :: "(real \<Rightarrow> real) \<Rightarrow> bool" where
  "rounding fl \<longleftrightarrow> mono fl \<and> (\<forall>n \<in> {0 .. 100}. fl (real_of_int n) = real_of_int n)"

text \<open>
  The truth value of \<open>input.budget\<close>: an absent budget and the budget 0 are both
  false.
\<close>

definition truthy :: "real option \<Rightarrow> bool" where
  "truthy b = (case b of None \<Rightarrow> False | Some v \<Rightarrow> v \<noteq> 0)"

text \<open>
  The handler of the tool. Each \<open>score += ...\<close> of the source is one binding of the
  \<open>let\<close>, and each division, multiplication and addition is rounded by \<open>fl\<close>. The
  \<open>switch\<close> on the timeline has no \<open>default\<close>, so another timeline leaves the score
  as it is.
\<close>

definition scoreLeadTool :: "(real \<Rightarrow> real) \<Rightarrow> ScoreLeadInput \<Rightarrow> ScoreLeadResult" where
  "scoreLeadTool fl input =
     (let score0 = (0 :: real);
          score1 =
            (if company_size input > 1000 then fl (score0 + 20)
             else if company_size input > 100 then fl (score0 + 15)
             else if company_size input > 10 then fl (score0 + 10)
             else fl (score0 + 5));
          score2 =
            (if truthy (budget input)
             then (if the (budget input) > 100000 then fl (score1 + 25)
                   else if the (budget input) > 50000 then fl (score1 + 20)
                   else if the (budget input) > 10000 then fl (score1 + 15)
                   else fl (score1 + 10))
             else fl (score1 + 5));
          score3 =
            (if timeline input = ''immediate'' then fl (score2 + 20)
             else if timeline input = ''quarter'' then fl (score2 + 15)
             else if timeline input = ''year'' then fl (score2 + 10)
             else if timeline input = ''exploring'' then fl (score2 + 5)
             else score2);
          score4 = fl (score3 + fl (fl (engagement_level input / 10) * 15));
          score5 = fl (score4 + fl (fl (pain_point_match input / 10) * 15));
          score6 = (if decision_maker_access input then fl (score5 + 5) else score5);
          finalScore = min 100 (Math_round score6);
          recommendation' =
            (if finalScore \<ge> 80
               then [CHR 0xF0, CHR 0x9F, CHR 0x94, CHR 0xA5]
                    @ '' Hot Lead - Immediate Action Required''
             else if finalScore \<ge> 60
               then [CHR 0xE2, CHR 0x9C, CHR 0xA8] @ '' Warm Lead - High Priority''
             else if finalScore \<ge> 40
               then [CHR 0xF0, CHR 0x9F, CHR 0x93, CHR 0x8A]
                    @ '' Qualified Lead - Standard Follow-up''
             else [CHR 0xE2, CHR 0x9D, CHR 0x84, CHR 0xEF, CHR 0xB8, CHR 0x8F]
                  @ '' Cold Lead - Nurture Campaign'')
      in \<lparr>score = finalScore,
          recommendation = recommendation',
          factors = \<lparr>factor_company_size = company_size input,
                      factor_budget = (if truthy (budget input) then Inl (the (budget input))
                                       else Inr ''unknown''),
                      factor_timeline = timeline input,
                      factor_engagement = engagement_level input,
                      factor_pain_point_match = pain_point_match input,
                      factor_decision_maker_access = decision_maker_access input\<rparr>\<rparr>)"

text \<open>The recommendation that belongs to a score, by the four thresholds.\<close>

definition recommendationFor :: "int \<Rightarrow> string" where
  "recommendationFor s =
     (if s \<ge> 80
        then [CHR 0xF0, CHR 0x9F, CHR 0x94, CHR 0xA5] @ '' Hot Lead - Immediate Action Required''
      else if s \<ge> 60
        then [CHR 0xE2, CHR 0x9C, CHR 0xA8] @ '' Warm Lead - High Priority''
      else if s \<ge> 40
        then [CHR 0xF0, CHR 0x9F, CHR 0x93, CHR 0x8A] @ '' Qualified Lead - Standard Follow-up''
      else [CHR 0xE2, CHR 0x9D, CHR 0x84, CHR 0xEF, CHR 0xB8, CHR 0x8F]
           @ '' Cold Lead - Nurture Campaign'')"

subsection \<open>\<open>PreSalesAgent.formatFollowUpSequence\<close>\<close>

record Touchpoint =
  number :: int
  day :: int
  channel :: string
  content :: string

record FollowUpSequence =
  lead :: string
  created :: string
  touchpoints :: "Touchpoint list"

text \<open>
  \<open>sequence.map((content, index) => ...)\<close> calls its function on each element with
  its index, from 0: \<open>enumerate 0\<close> pairs them. \<open>timestamp\<close> is what
  \<open>new Date().toISOString()\<close> returned.
\<close>

definition formatFollowUpSequence :: "string \<Rightarrow> Lead \<Rightarrow> string list \<Rightarrow> FollowUpSequence" where
  "formatFollowUpSequence timestamp lead' sequence =
     \<lparr>lead = company_name lead',
      created = timestamp,
      touchpoints =
        map (\<lambda>(index, content').
               \<lparr>number = int index + 1,
                day = \<lfloor>real index * 3\<rfloor> + 1,
                channel = (if index mod 3 = 0 then ''email''
                           else if index mod 3 = 1 then ''linkedin''
                           else ''phone''),
                content = content'\<rparr>)
            (enumerate 0 sequence)\<rparr>"


section \<open>Properties of the research agent\<close>

subsection \<open>No method writes the receiver\<close>

lemma getFormatInstructions_frame: "snd (getFormatInstructions this) = this"
  by (simp only: getFormatInstructions_def snd_conv)

lemma buildSystemPrompt_frame: "snd (buildSystemPrompt this) = this"
  by (simp only: buildSystemPrompt_def Let_def case_prod_beta snd_conv
      getFormatInstructions_frame)

lemma buildResearchPrompt_frame: "snd (buildResearchPrompt this) = this"
  by (simp only: buildResearchPrompt_def snd_conv)

lemma getModelByDepth_frame: "snd (getModelByDepth this) = this"
  by (simp only: getModelByDepth_def snd_conv)

lemma getSearchIterations_frame: "snd (getSearchIterations this) = this"
  by (simp only: getSearchIterations_def snd_conv)

lemma formatResults_frame: "snd (formatResults timestamp results this) = this"
  by (simp only: formatResults_def Let_def snd_conv)

lemmas method_frames = getFormatInstructions_frame buildSystemPrompt_frame
  buildResearchPrompt_frame getModelByDepth_frame getSearchIterations_frame
  formatResults_frame

subsection \<open>What a run sends and leaves\<close>

lemma research_sent:
  "sent (research w this) =
     \<lparr>prompt = fst (buildResearchPrompt this),
      options = \<lparr>model = fst (getModelByDepth this),
                 systemPrompt = fst (buildSystemPrompt this),
                 allowedTools = [''WebSearch'', ''WebFetch'', ''Read'', ''Write'', ''Grep''],
                 maxTurns = fst (getSearchIterations this),
                 settingSources = [''project'']\<rparr>\<rparr>"
  by (simp only: research_def Let_def case_prod_beta method_frames
      ResearchRun.select_convs)

lemma research_agent: "agent (research w this) = this"
  by (simp only: research_def Let_def case_prod_beta method_frames
      ResearchRun.select_convs)

lemma resolvedProfile_eq:
  "resolvedProfile w this =
     \<lparr>effectiveDepth = depth (config this),
      effectiveFormat = outputFormat (config this),
      profileModel = fst (getModelByDepth this),
      profileMaxTurns = fst (getSearchIterations this)\<rparr>"
  by (simp only: resolvedProfile_def Let_def research_agent research_sent
      QueryRequest.select_convs QueryOptions.select_convs)

lemma getModelByDepth_cases:
  "fst (getModelByDepth this) =
     (if depth (config this) = ''quick'' then ''claude-haiku-4-5-20251001''
      else if depth (config this) = ''comprehensive'' then ''claude-opus-4-1-20250805''
      else ''claude-sonnet-4-5-20250929'')"
  by (simp add: getModelByDepth_def)

lemma getSearchIterations_cases:
  "fst (getSearchIterations this) =
     (if depth (config this) = ''quick'' then 10
      else if depth (config this) = ''comprehensive'' then 40
      else 20)"
  by (simp add: getSearchIterations_def)

subsection \<open>Development mode\<close>

text \<open>
  Claim C1: in development mode (\<open>NODE_ENV=development\<close>) the resolved profile is
  (quick, summary, 5 turns, Haiku) whatever was requested. The methods of the source
  never read the environment. At the configuration of \<open>test-dev-mode.ts\<close>
  (comprehensive, detailed) in development mode, the run keeps the requested depth and
  format and sends the Opus id with 40 turns.
\<close>

theorem development_mode_ignored:
  "runtimeMode \<lparr>env = [''NODE_ENV'' \<mapsto> ''development''],
                clock = ''2025-11-03T00:00:00.000Z'', sdk = (\<lambda>request. [])\<rparr> = development \<and>
   resolvedProfile
     \<lparr>env = [''NODE_ENV'' \<mapsto> ''development''],
      clock = ''2025-11-03T00:00:00.000Z'', sdk = (\<lambda>request. [])\<rparr>
     (constructor \<lparr>topic = ''Quick test: What is OpenAI?'', depth = ''comprehensive'',
                   includeCitations = True, outputFormat = ''detailed''\<rparr>)
   = \<lparr>effectiveDepth = ''comprehensive'', effectiveFormat = ''detailed'',
      profileModel = ''claude-opus-4-1-20250805'', profileMaxTurns = 40\<rparr>"
  by (simp add: runtimeMode_def resolvedProfile_eq getModelByDepth_cases
      getSearchIterations_cases constructor_def)

subsection \<open>A depth outside the three literals\<close>

text \<open>
  Claim C2, as stated: a depth outside quick, standard and comprehensive, such as
  \<open>extreme\<close>, makes the resolver fail and never fall back to a default. It does fall
  back: at \<open>extreme\<close> both methods return the values of their \<open>default\<close> branch.
\<close>

theorem extreme_depth_falls_back:
  "getModelByDepth
     (constructor \<lparr>topic = ''t'', depth = ''extreme'', includeCitations = False,
                   outputFormat = ''summary''\<rparr>)
   = (''claude-sonnet-4-5-20250929'',
      constructor \<lparr>topic = ''t'', depth = ''extreme'', includeCitations = False,
                   outputFormat = ''summary''\<rparr>) \<and>
   getSearchIterations
     (constructor \<lparr>topic = ''t'', depth = ''extreme'', includeCitations = False,
                   outputFormat = ''summary''\<rparr>)
   = (20,
      constructor \<lparr>topic = ''t'', depth = ''extreme'', includeCitations = False,
                   outputFormat = ''summary''\<rparr>)"
  by (simp add: getModelByDepth_def getSearchIterations_def constructor_def)

text \<open>
  Claim C2, amended: for a depth outside quick, standard and comprehensive the resolver
  does not fail; \<open>getModelByDepth\<close> returns the Sonnet id and \<open>getSearchIterations\<close>
  returns 20, the values of the standard depth.
\<close>

theorem unrecognised_depth_defaults:
  assumes "depth (config this) \<notin> {''quick'', ''standard'', ''comprehensive''}"
  shows "getModelByDepth this = (''claude-sonnet-4-5-20250929'', this) \<and>
         getSearchIterations this = (20, this)"
  using assms by (simp add: getModelByDepth_def getSearchIterations_def)

theorem unrecognised_depth_defaults_witness:
  "depth (config (constructor \<lparr>topic = ''t'', depth = ''exhaustive'',
      includeCitations = True, outputFormat = ''executive''\<rparr>))
     \<notin> {''quick'', ''standard'', ''comprehensive''} \<and>
   fst (getModelByDepth (constructor \<lparr>topic = ''t'', depth = ''exhaustive'',
      includeCitations = True, outputFormat = ''executive''\<rparr>))
     = ''claude-sonnet-4-5-20250929'' \<and>
   fst (getSearchIterations (constructor \<lparr>topic = ''t'', depth = ''exhaustive'',
      includeCitations = True, outputFormat = ''executive''\<rparr>)) = 20"
  using unrecognised_depth_defaults [of "constructor \<lparr>topic = ''t'', depth = ''exhaustive'',
      includeCitations = True, outputFormat = ''executive''\<rparr>"]
  by (simp add: constructor_def)

subsection \<open>The lookup table\<close>

text \<open>
  Claim C3: in production mode the resolver is the fixed table: quick gives the Haiku id
  and 10 turns, standard the Sonnet id and 20 turns, comprehensive the Opus id and 40
  turns; the requested depth and output format pass through unchanged.
\<close>

theorem production_lookup_table:
  assumes "runtimeMode w = production"
  shows "(depth (config this) = ''quick'' \<longrightarrow>
            resolvedProfile w this =
              \<lparr>effectiveDepth = ''quick'', effectiveFormat = outputFormat (config this),
               profileModel = ''claude-haiku-4-5-20251001'', profileMaxTurns = 10\<rparr>) \<and>
         (depth (config this) = ''standard'' \<longrightarrow>
            resolvedProfile w this =
              \<lparr>effectiveDepth = ''standard'', effectiveFormat = outputFormat (config this),
               profileModel = ''claude-sonnet-4-5-20250929'', profileMaxTurns = 20\<rparr>) \<and>
         (depth (config this) = ''comprehensive'' \<longrightarrow>
            resolvedProfile w this =
              \<lparr>effectiveDepth = ''comprehensive'', effectiveFormat = outputFormat (config this),
               profileModel = ''claude-opus-4-1-20250805'', profileMaxTurns = 40\<rparr>)"
  by (simp add: resolvedProfile_eq getModelByDepth_cases getSearchIterations_cases)

theorem production_lookup_table_witness:
  "runtimeMode \<lparr>env = [''NODE_ENV'' \<mapsto> ''production''], clock = ''c'', sdk = (\<lambda>request. [])\<rparr>
     = production \<and>
   resolvedProfile
     \<lparr>env = [''NODE_ENV'' \<mapsto> ''production''], clock = ''c'', sdk = (\<lambda>request. [])\<rparr>
     (constructor \<lparr>topic = ''t'', depth = ''quick'', includeCitations = True,
                   outputFormat = ''executive''\<rparr>)
   = \<lparr>effectiveDepth = ''quick'', effectiveFormat = ''executive'',
      profileModel = ''claude-haiku-4-5-20251001'', profileMaxTurns = 10\<rparr> \<and>
   resolvedProfile
     \<lparr>env = [''NODE_ENV'' \<mapsto> ''production''], clock = ''c'', sdk = (\<lambda>request. [])\<rparr>
     (constructor \<lparr>topic = ''t'', depth = ''standard'', includeCitations = True,
                   outputFormat = ''executive''\<rparr>)
   = \<lparr>effectiveDepth = ''standard'', effectiveFormat = ''executive'',
      profileModel = ''claude-sonnet-4-5-20250929'', profileMaxTurns = 20\<rparr> \<and>
   resolvedProfile
     \<lparr>env = [''NODE_ENV'' \<mapsto> ''production''], clock = ''c'', sdk = (\<lambda>request. [])\<rparr>
     (constructor \<lparr>topic = ''t'', depth = ''comprehensive'', includeCitations = True,
                   outputFormat = ''detailed''\<rparr>)
   = \<lparr>effectiveDepth = ''comprehensive'', effectiveFormat = ''detailed'',
      profileModel = ''claude-opus-4-1-20250805'', profileMaxTurns = 40\<rparr>"
  using
    production_lookup_table [of
      "\<lparr>env = [''NODE_ENV'' \<mapsto> ''production''], clock = ''c'', sdk = (\<lambda>request. [])\<rparr>"
      "constructor \<lparr>topic = ''t'', depth = ''quick'', includeCitations = True,
                    outputFormat = ''executive''\<rparr>"]
    production_lookup_table [of
      "\<lparr>env = [''NODE_ENV'' \<mapsto> ''production''], clock = ''c'', sdk = (\<lambda>request. [])\<rparr>"
      "constructor \<lparr>topic = ''t'', depth = ''standard'', includeCitations = True,
                    outputFormat = ''executive''\<rparr>"]
    production_lookup_table [of
      "\<lparr>env = [''NODE_ENV'' \<mapsto> ''production''], clock = ''c'', sdk = (\<lambda>request. [])\<rparr>"
      "constructor \<lparr>topic = ''t'', depth = ''comprehensive'', includeCitations = True,
                    outputFormat = ''detailed''\<rparr>"]
  by (simp add: runtimeMode_def constructor_def)

text \<open>
  Claim C4: for every input the resolved model and turn budget are a row of the fixed
  table, and the turn budget is positive; no other value is produced.
\<close>

theorem profile_from_table:
  "(profileModel (resolvedProfile w this), profileMaxTurns (resolvedProfile w this))
     \<in> {(''claude-haiku-4-5-20251001'', 10), (''claude-sonnet-4-5-20250929'', 20),
         (''claude-opus-4-1-20250805'', 40)} \<and>
   0 < profileMaxTurns (resolvedProfile w this) \<and>
   (fst (getModelByDepth this), fst (getSearchIterations this))
     \<in> {(''claude-haiku-4-5-20251001'', 10), (''claude-sonnet-4-5-20250929'', 20),
         (''claude-opus-4-1-20250805'', 40)}"
  by (simp add: resolvedProfile_eq getModelByDepth_cases getSearchIterations_cases)

subsection \<open>Determinism\<close>

text \<open>
  Claim C5: the resolver is deterministic and idempotent. Its result is a function of the
  requested depth and format alone: two agents that agree on them resolve to the same
  profile in any two worlds (environment, clock and SDK answers may all differ), a
  second call on the receiver the first call left returns the same, and so does a second
  run.
\<close>

theorem resolver_deterministic:
  assumes "depth (config a) = depth (config b)"
    and "outputFormat (config a) = outputFormat (config b)"
  shows "resolvedProfile w1 a = resolvedProfile w2 b \<and>
         fst (getModelByDepth a) = fst (getModelByDepth b) \<and>
         fst (getSearchIterations a) = fst (getSearchIterations b) \<and>
         getModelByDepth (snd (getModelByDepth a)) = getModelByDepth a \<and>
         getSearchIterations (snd (getSearchIterations a)) = getSearchIterations a \<and>
         resolvedProfile w2 (agent (research w1 a)) = resolvedProfile w1 a"
  using assms
  by (simp add: resolvedProfile_eq getModelByDepth_cases getSearchIterations_cases
      method_frames research_agent)

theorem resolver_deterministic_witness:
  "resolvedProfile
     \<lparr>env = [''NODE_ENV'' \<mapsto> ''development''], clock = ''c1'', sdk = (\<lambda>request. [])\<rparr>
     (constructor \<lparr>topic = ''first'', depth = ''standard'', includeCitations = True,
                   outputFormat = ''detailed''\<rparr>)
   = resolvedProfile
     \<lparr>env = [''NODE_ENV'' \<mapsto> ''production''], clock = ''c2'',
      sdk = (\<lambda>request. [\<lparr>mtype = ''assistant'', mcontent = ''x''\<rparr>])\<rparr>
     (constructor \<lparr>topic = ''second'', depth = ''standard'', includeCitations = False,
                   outputFormat = ''detailed''\<rparr>)"
  using resolver_deterministic [of
      "constructor \<lparr>topic = ''first'', depth = ''standard'', includeCitations = True,
                    outputFormat = ''detailed''\<rparr>"
      "constructor \<lparr>topic = ''second'', depth = ''standard'', includeCitations = False,
                    outputFormat = ''detailed''\<rparr>"
      "\<lparr>env = [''NODE_ENV'' \<mapsto> ''development''], clock = ''c1'', sdk = (\<lambda>request. [])\<rparr>"
      "\<lparr>env = [''NODE_ENV'' \<mapsto> ''production''], clock = ''c2'',
        sdk = (\<lambda>request. [\<lparr>mtype = ''assistant'', mcontent = ''x''\<rparr>])\<rparr>"]
  by (simp add: constructor_def)

subsection \<open>The request and the receiver\<close>

text \<open>
  Claim C6: the model passed to \<open>query\<close> is the value \<open>getModelByDepth\<close> returns and
  the \<open>maxTurns\<close> passed is the value \<open>getSearchIterations\<close> returns, for every
  configuration.
\<close>

theorem request_carries_profile:
  "model (options (sent (research w this))) = fst (getModelByDepth this) \<and>
   maxTurns (options (sent (research w this))) = fst (getSearchIterations this)"
  by (simp only: research_sent QueryRequest.select_convs QueryOptions.select_convs)

text \<open>
  Claim C7: the configuration is set once, by the constructor, and no method changes it:
  \<open>research\<close>, \<open>buildSystemPrompt\<close>, \<open>buildResearchPrompt\<close>, \<open>getModelByDepth\<close>,
  \<open>getSearchIterations\<close>, \<open>formatResults\<close> and \<open>getFormatInstructions\<close> leave
  \<open>this.config\<close> as they found it.
\<close>

theorem config_never_mutated:
  "config (constructor cfg) = cfg \<and>
   config (agent (research w this)) = config this \<and>
   config (snd (buildSystemPrompt this)) = config this \<and>
   config (snd (buildResearchPrompt this)) = config this \<and>
   config (snd (getModelByDepth this)) = config this \<and>
   config (snd (getSearchIterations this)) = config this \<and>
   config (snd (formatResults timestamp results this)) = config this \<and>
   config (snd (getFormatInstructions this)) = config this"
  by (simp add: method_frames research_agent constructor_def)

section \<open>The two model tables\<close>

lemma modelMap_agrees_below_opus:
  "resolveModel \<lparr>agentConfig = c\<lparr>agentModel := haiku\<rparr>\<rparr>
     = fst (getModelByDepth (constructor (cfg\<lparr>depth := ''quick''\<rparr>)))"
  "resolveModel \<lparr>agentConfig = c\<lparr>agentModel := sonnet\<rparr>\<rparr>
     = fst (getModelByDepth (constructor (cfg\<lparr>depth := ''standard''\<rparr>)))"
  by (simp_all add: resolveModel_def modelMap_def getModelByDepth_def constructor_def)

text \<open>
  Claim C9: for corresponding tiers \<open>TypeSafeAgent.resolveModel\<close> returns the model id
  that \<open>ResearchAgent.getModelByDepth\<close> returns. The Haiku and Sonnet entries agree; at
  the third pair, Opus and comprehensive, \<open>modelMap\<close> holds the id ending in 20250514
  and \<open>getModelByDepth\<close> the id ending in 20250805.
\<close>

theorem opus_ids_differ:
  "tierOfDepth ''comprehensive'' = Some opus \<and>
   resolveModel \<lparr>agentConfig = \<lparr>name = ''agent'', agentModel = opus, tools = [],
                                agentMaxTurns = 5, agentSystemPrompt = ''prompt''\<rparr>\<rparr>
     = ''claude-opus-4-1-20250514'' \<and>
   fst (getModelByDepth (constructor \<lparr>topic = ''t'', depth = ''comprehensive'',
                                      includeCitations = True, outputFormat = ''detailed''\<rparr>))
     = ''claude-opus-4-1-20250805'' \<and>
   resolveModel \<lparr>agentConfig = \<lparr>name = ''agent'', agentModel = opus, tools = [],
                                agentMaxTurns = 5, agentSystemPrompt = ''prompt''\<rparr>\<rparr>
     \<noteq> fst (getModelByDepth (constructor \<lparr>topic = ''t'', depth = ''comprehensive'',
                                      includeCitations = True, outputFormat = ''detailed''\<rparr>))"
  by (simp add: tierOfDepth_def resolveModel_def modelMap_def getModelByDepth_def
      constructor_def)

section \<open>Properties of the pre-sales agent\<close>

subsection \<open>The lead score\<close>

lemma rounding_ge:
  assumes "rounding fl" and "n \<in> {0 .. 100}" and "real_of_int n \<le> x"
  shows "real_of_int n \<le> fl x"
proof -
  from assms(1) have "mono fl" and "fl (real_of_int n) = real_of_int n"
    using assms(2) by (simp_all add: rounding_def)
  with assms(3) show ?thesis by (metis monoD)
qed

lemma rounding_ge_0: "rounding fl \<Longrightarrow> 0 \<le> x \<Longrightarrow> 0 \<le> fl x"
  using rounding_ge [of fl 0 x] by simp

lemma rounding_ge_5: "rounding fl \<Longrightarrow> 5 \<le> x \<Longrightarrow> 5 \<le> fl x"
  using rounding_ge [of fl 5 x] by simp

lemma rounding_ge_10: "rounding fl \<Longrightarrow> 10 \<le> x \<Longrightarrow> 10 \<le> fl x"
  using rounding_ge [of fl 10 x] by simp

lemma Math_round_ge: "real_of_int n \<le> x \<Longrightarrow> n \<le> Math_round x"
  unfolding Math_round_def by linarith

lemma scoreLeadTool_recommendation:
  "recommendation (scoreLeadTool fl input) = recommendationFor (score (scoreLeadTool fl input))"
  by (simp only: scoreLeadTool_def Let_def ScoreLeadResult.select_convs recommendationFor_def)

lemma scoreLeadTool_upper: "score (scoreLeadTool fl input) \<le> 100"
  by (simp only: scoreLeadTool_def Let_def ScoreLeadResult.select_convs min.cobounded1)

text \<open>
  The score is at least 5 after the company size and at least 10 after the budget; the
  timeline, the engagement, the pain-point match and the access add nothing negative.
\<close>

lemma scoreLeadTool_lower:
  assumes fl: "rounding fl" and schema: "scoreLeadSchema input"
  shows "10 \<le> score (scoreLeadTool fl input)"
proof -
  define score1 where "score1 =
            (if company_size input > 1000 then fl (0 + 20)
             else if company_size input > 100 then fl (0 + 15)
             else if company_size input > 10 then fl (0 + 10)
             else fl (0 + 5))"
  define score2 where "score2 =
            (if truthy (budget input)
             then (if the (budget input) > 100000 then fl (score1 + 25)
                   else if the (budget input) > 50000 then fl (score1 + 20)
                   else if the (budget input) > 10000 then fl (score1 + 15)
                   else fl (score1 + 10))
             else fl (score1 + 5))"
  define score3 where "score3 =
            (if timeline input = ''immediate'' then fl (score2 + 20)
             else if timeline input = ''quarter'' then fl (score2 + 15)
             else if timeline input = ''year'' then fl (score2 + 10)
             else if timeline input = ''exploring'' then fl (score2 + 5)
             else score2)"
  define score4 where "score4 = fl (score3 + fl (fl (engagement_level input / 10) * 15))"
  define score5 where "score5 = fl (score4 + fl (fl (pain_point_match input / 10) * 15))"
  define score6 where "score6 = (if decision_maker_access input then fl (score5 + 5) else score5)"
  have eq: "score (scoreLeadTool fl input) = min 100 (Math_round score6)"
    by (simp only: scoreLeadTool_def Let_def ScoreLeadResult.select_convs
        score1_def score2_def score3_def score4_def score5_def score6_def)
  have 1: "5 \<le> score1"
    unfolding score1_def using fl by (simp add: rounding_ge_5)
  have 2: "10 \<le> score2"
    unfolding score2_def using fl 1 by (simp add: rounding_ge_10)
  have 3: "10 \<le> score3"
    unfolding score3_def using fl 2 by (simp add: rounding_ge_10)
  have e: "0 \<le> fl (fl (engagement_level input / 10) * 15)"
    using fl schema by (simp add: scoreLeadSchema_def rounding_ge_0)
  have p: "0 \<le> fl (fl (pain_point_match input / 10) * 15)"
    using fl schema by (simp add: scoreLeadSchema_def rounding_ge_0)
  have 4: "10 \<le> score4"
    unfolding score4_def using fl 3 e by (simp add: rounding_ge_10)
  have 5: "10 \<le> score5"
    unfolding score5_def using fl 4 p by (simp add: rounding_ge_10)
  have 6: "10 \<le> score6"
    unfolding score6_def using fl 5 by (simp add: rounding_ge_10)
  then have "10 \<le> Math_round score6"
    by (intro Math_round_ge) simp
  then show ?thesis
    unfolding eq by simp
qed

text \<open>With exact arithmetic the example lead of the sources scores 72.5, rounded to 73.\<close>

lemma scoreLeadTool_example:
  "score (scoreLeadTool (\<lambda>x. x) \<lparr>company_size = 500, budget = Some 50000,
      timeline = ''quarter'', engagement_level = 7, pain_point_match = 8,
      decision_maker_access = True\<rparr>) = 73"
  by (simp add: scoreLeadTool_def Let_def truthy_def Math_round_def)

text \<open>
  Claim C8: for every input the schema of \<open>score_lead\<close> accepts, the returned score is an
  integer between 10 and 100, and the recommendation is the one the thresholds 80, 60
  and 40 give for that score.
\<close>

theorem score_lead_range:
  assumes "rounding fl" and "scoreLeadSchema input"
  shows "10 \<le> score (scoreLeadTool fl input) \<and> score (scoreLeadTool fl input) \<le> 100 \<and>
         recommendation (scoreLeadTool fl input)
           = recommendationFor (score (scoreLeadTool fl input))"
  using assms scoreLeadTool_lower scoreLeadTool_upper scoreLeadTool_recommendation
  by blast

theorem score_lead_range_witness:
  "rounding (\<lambda>x. x) \<and>
   scoreLeadSchema \<lparr>company_size = 500, budget = Some 50000, timeline = ''quarter'',
      engagement_level = 7, pain_point_match = 8, decision_maker_access = True\<rparr> \<and>
   10 \<le> score (scoreLeadTool (\<lambda>x. x) \<lparr>company_size = 500, budget = Some 50000,
      timeline = ''quarter'', engagement_level = 7, pain_point_match = 8,
      decision_maker_access = True\<rparr>) \<and>
   score (scoreLeadTool (\<lambda>x. x) \<lparr>company_size = 500, budget = Some 50000,
      timeline = ''quarter'', engagement_level = 7, pain_point_match = 8,
      decision_maker_access = True\<rparr>) \<le> 100 \<and>
   recommendation (scoreLeadTool (\<lambda>x. x) \<lparr>company_size = 500, budget = Some 50000,
      timeline = ''quarter'', engagement_level = 7, pain_point_match = 8,
      decision_maker_access = True\<rparr>)
     = recommendationFor (score (scoreLeadTool (\<lambda>x. x) \<lparr>company_size = 500,
      budget = Some 50000, timeline = ''quarter'', engagement_level = 7,
      pain_point_match = 8, decision_maker_access = True\<rparr>))"
proof -
  have fl: "rounding (\<lambda>x. x)"
    by (simp add: rounding_def mono_def)
  have schema: "scoreLeadSchema \<lparr>company_size = 500, budget = Some 50000,
      timeline = ''quarter'', engagement_level = 7, pain_point_match = 8,
      decision_maker_access = True\<rparr>"
    by (simp add: scoreLeadSchema_def)
  from fl schema score_lead_range [OF fl schema] show ?thesis by (intro conjI) simp_all
qed

subsection \<open>The follow-up sequence\<close>

lemma formatFollowUpSequence_length:
  "length (touchpoints (formatFollowUpSequence timestamp l sequence)) = length sequence"
  by (simp add: formatFollowUpSequence_def)

lemma formatFollowUpSequence_nth:
  assumes "i < length sequence"
  shows "touchpoints (formatFollowUpSequence timestamp l sequence) ! i =
           \<lparr>number = int i + 1,
            day = 3 * int i + 1,
            channel = (if i mod 3 = 0 then ''email''
                       else if i mod 3 = 1 then ''linkedin'' else ''phone''),
            content = sequence ! i\<rparr>"
proof -
  have "\<lfloor>real i * 3\<rfloor> = 3 * int i" by linarith
  with assms show ?thesis
    by (simp add: formatFollowUpSequence_def nth_enumerate_eq)
qed

text \<open>
  Claim C10: for every lead and every list of contents, \<open>formatFollowUpSequence\<close>
  returns as many touchpoints as there are contents, and the touchpoint at index \<open>i\<close>
  (from 0) has number \<open>i + 1\<close>, day \<open>3 * i + 1\<close>, channel email when \<open>i mod 3 = 0\<close>,
  linkedin when \<open>i mod 3 = 1\<close> and phone otherwise, and the \<open>i\<close>-th content.
\<close>

theorem follow_up_touchpoints:
  "length (touchpoints (formatFollowUpSequence timestamp l sequence)) = length sequence \<and>
   (\<forall>i < length sequence.
      touchpoints (formatFollowUpSequence timestamp l sequence) ! i =
        \<lparr>number = int i + 1,
         day = 3 * int i + 1,
         channel = (if i mod 3 = 0 then ''email''
                    else if i mod 3 = 1 then ''linkedin'' else ''phone''),
         content = sequence ! i\<rparr>)"
  using formatFollowUpSequence_length formatFollowUpSequence_nth by blast

theorem follow_up_touchpoints_witness:
  "length (touchpoints (formatFollowUpSequence ''2025-11-03T00:00:00.000Z''
      \<lparr>company_name = ''Target Company'', lead_company_size = 200, industry = ''Finance'',
       lead_budget = None, lead_timeline = ''immediate'',
       pain_points = [''Compliance'', ''Reporting''],
       decision_makers = [\<lparr>dm_name = ''Jane Doe'', dm_title = ''VP of Operations'',
                            dm_email = None\<rparr>],
       lead_engagement_level = 8\<rparr>
      [''first'', ''second'', ''third'', ''fourth''])) = 4 \<and>
   touchpoints (formatFollowUpSequence ''2025-11-03T00:00:00.000Z''
      \<lparr>company_name = ''Target Company'', lead_company_size = 200, industry = ''Finance'',
       lead_budget = None, lead_timeline = ''immediate'',
       pain_points = [''Compliance'', ''Reporting''],
       decision_makers = [\<lparr>dm_name = ''Jane Doe'', dm_title = ''VP of Operations'',
                            dm_email = None\<rparr>],
       lead_engagement_level = 8\<rparr>
      [''first'', ''second'', ''third'', ''fourth'']) ! 3
     = \<lparr>number = 4, day = 10, channel = ''email'', content = ''fourth''\<rparr>"
proof -
  note t = follow_up_touchpoints [of "''2025-11-03T00:00:00.000Z''"
      "\<lparr>company_name = ''Target Company'', lead_company_size = 200, industry = ''Finance'',
       lead_budget = None, lead_timeline = ''immediate'',
       pain_points = [''Compliance'', ''Reporting''],
       decision_makers = [\<lparr>dm_name = ''Jane Doe'', dm_title = ''VP of Operations'',
                            dm_email = None\<rparr>],
       lead_engagement_level = 8\<rparr>"
      "[''first'', ''second'', ''third'', ''fourth'']"]
  from t [THEN conjunct1] t [THEN conjunct2, THEN spec, of 3]
  show ?thesis by simp
qed

end
